theory Spec2Isabelle
  imports Main "HOL-Library.AList"
begin

section \<open>Values, errors and the request body\<close>

text \<open>
  Strings are the program's strings in UTF-8, one \<open>char\<close> a byte. The separator \<open>@\<close> is
  a single byte that never occurs inside a multi-byte character, so splitting at it acts
  on the bytes as \<open>split('@')\<close> does on the string.
\<close>

text \<open>
  What the program throws: \<open>new HttpError(type, message)\<close>, the validation library's
  error with its list of (path, code) details, and any other exception of a collaborator.
\<close>

datatype error =
    HttpError string string
  | ValidationError "(string \<times> string) list"
  | Thrown string

text \<open>A parsed JSON value, as the request body arrives.\<close>

datatype json =
    JNull
  | JBool bool
  | JNum int
  | JStr string
  | JArr "json list"
  | JObj "(string \<times> json) list"

text \<open>
  An address field of the body as the handler sees it: \<open>Array.isArray\<close> tells a single
  address from a list of them.
\<close>

datatype Recipients = One string | Many "string list"

fun isArray :: "Recipients \<Rightarrow> bool" where
  "isArray (One _) = False"
| "isArray (Many _) = True"

fun isArray_opt :: "Recipients option \<Rightarrow> bool" where
  "isArray_opt None = False"
| "isArray_opt (Some r) = isArray r"

record SendEmailBody =
  b_from :: string
  b_to :: Recipients
  b_replyTo :: "Recipients option"
  b_subject :: string
  b_text :: "string option"
  b_html :: "string option"
  b_headers :: "(string \<times> string) list"

text \<open>The user columns the session resolver selects: \<open>id\<close>, \<open>email\<close>, \<open>name\<close>.\<close>

record CurrentUser =
  cu_id :: string
  cu_email :: string
  cu_name :: string

record ('b, 'ctx) RouteParams =
  rp_body :: 'b
  rp_userId :: "string option"
  rp_user :: "CurrentUser option"
  rp_context :: 'ctx

text \<open>JavaScript truthiness of an optional string: \<open>undefined\<close> and \<open>''\<close> are falsy.\<close>

fun falsy :: "string option \<Rightarrow> bool" where
  "falsy None = True"
| "falsy (Some s) = (s = [])"

text \<open>The value of an optional string where it is truthy.\<close>

fun truthy :: "string option \<Rightarrow> string option" where
  "truthy None = None"
| "truthy (Some s) = (if s = [] then None else Some s)"

section \<open>String operations\<close>

text \<open>\<open>s.split(c)\<close> for a one-character separator: the empty string gives \<open>['']\<close>.\<close>

fun split :: "char \<Rightarrow> string \<Rightarrow> string list" where
  "split c [] = [[]]"
| "split c (x # xs) =
     (if x = c then [] # split c xs
      else (case split c xs of
              [] \<Rightarrow> [[x]]
            | s # ss \<Rightarrow> (x # s) # ss))"

text \<open>\<open>xs[i]\<close>: \<open>undefined\<close> out of range.\<close>

fun index :: "'a list \<Rightarrow> nat \<Rightarrow> 'a option" where
  "index [] i = None"
| "index (x # xs) 0 = Some x"
| "index (x # xs) (Suc i) = index xs i"

text \<open>\<open>from.split('@')[1]\<close>, line 78 of the send route.\<close>

definition fromDomain :: "string \<Rightarrow> string option" where
  "fromDomain from_addr = index (split (CHR ''@'') from_addr) 1"

text \<open>
  The specification's words for the same value: the substring of the address after the
  first \<open>@\<close>, through the end of the string.
\<close>

definition after_first_at :: "string \<Rightarrow> string" where
  "after_first_at s = tl (dropWhile (\<lambda>c. c \<noteq> CHR ''@'') s)"

text \<open>
  \<open>String.prototype.trim\<close> strips the white space and the line terminators of the
  language from both ends. Their UTF-8 encodings: U+0009 to U+000D, U+0020, U+00A0,
  U+1680, U+2000 to U+200A, U+2028, U+2029, U+202F, U+205F, U+3000 and U+FEFF.
\<close>

definition white_space :: "string list" where
  "white_space =
     map (\<lambda>c. [c]) [CHR 0x09, CHR 0x0A, CHR 0x0B, CHR 0x0C, CHR 0x0D, CHR 0x20]
     @ [[CHR 0xC2, CHR 0xA0], [CHR 0xE1, CHR 0x9A, CHR 0x80]]
     @ map (\<lambda>c. [CHR 0xE2, CHR 0x80, c])
         [CHR 0x80, CHR 0x81, CHR 0x82, CHR 0x83, CHR 0x84, CHR 0x85, CHR 0x86, CHR 0x87,
          CHR 0x88, CHR 0x89, CHR 0x8A, CHR 0xA8, CHR 0xA9, CHR 0xAF]
     @ [[CHR 0xE2, CHR 0x81, CHR 0x9F], [CHR 0xE3, CHR 0x80, CHR 0x80],
        [CHR 0xEF, CHR 0xBB, CHR 0xBF]]"

text \<open>The length of the first of the patterns that the string starts with, or 0.\<close>

definition leading :: "string list \<Rightarrow> string \<Rightarrow> nat" where
  "leading ps s =
     (case find (\<lambda>p. take (length p) s = p) ps of
        Some p \<Rightarrow> length p
      | None \<Rightarrow> 0)"

text \<open>The string without the patterns it starts with.\<close>

fun strip :: "string list \<Rightarrow> string \<Rightarrow> string" where
  "strip ps [] = []"
| "strip ps (c # s) =
     (case leading ps (c # s) of
        0 \<Rightarrow> c # s
      | Suc n \<Rightarrow> strip ps (drop n s))"

text \<open>
  The end of the string is stripped on the reversed string with the reversed encodings:
  each encoding begins with a byte that starts a character and ends with the character.
\<close>

definition trim :: "string \<Rightarrow> string" where
  "trim s = rev (strip (map rev white_space) (rev (strip white_space s)))"

section \<open>The request schema\<close>

text \<open>
  The validation library is an external collaborator. The functions below are its rules
  for the schema of \<open>validate\<close>, with conversion on: a string schema takes a string only
  (\<open>string.base\<close>), lower-cases and trims it first, rejects the empty string
  (\<open>string.empty\<close>) unless \<open>allow('')\<close> is given, and then applies the e-mail rule
  (\<open>string.email\<close>). \<open>abortEarly: false\<close> collects the errors of all keys;
  \<open>stripUnknown: true\<close> drops the keys the schema does not name.

  Two functions of the library's environment are parameters: its e-mail format check,
  and \<open>toLocaleLowerCase\<close>, which follows the Unicode case tables and the host's locale.
\<close>

record Library =
  isEmail :: "string \<Rightarrow> bool"
  toLocaleLowerCase :: "string \<Rightarrow> string"

record StringSchema =
  s_lowercase :: bool
  s_email :: bool
  s_allow_empty :: bool

definition convert :: "Library \<Rightarrow> StringSchema \<Rightarrow> string \<Rightarrow> string" where
  "convert lib sch s = trim (if s_lowercase sch then toLocaleLowerCase lib s else s)"

text \<open>A string schema on a value that is present.\<close>

fun string_rules :: "Library \<Rightarrow> StringSchema \<Rightarrow> json \<Rightarrow> string list + string" where
  "string_rules lib sch (JStr s) =
     (let v = convert lib sch s in
      if v = [] then (if s_allow_empty sch then Inr v else Inl [''string.empty''])
      else if s_email sch \<and> \<not> isEmail lib v then Inl [''string.email'']
      else Inr v)"
| "string_rules lib sch _ = Inl [''string.base'']"

definition string_required ::
  "Library \<Rightarrow> StringSchema \<Rightarrow> json option \<Rightarrow> string list + string" where
  "string_required lib sch v =
     (case v of None \<Rightarrow> Inl [''any.required''] | Some j \<Rightarrow> string_rules lib sch j)"

definition string_optional ::
  "Library \<Rightarrow> StringSchema \<Rightarrow> json option \<Rightarrow> string list + string option" where
  "string_optional lib sch v =
     (case v of
        None \<Rightarrow> Inr None
      | Some j \<Rightarrow> (case string_rules lib sch j of Inl e \<Rightarrow> Inl e | Inr s \<Rightarrow> Inr (Some s)))"

text \<open>Errors of one key, each under the key's path.\<close>

definition at_path :: "string \<Rightarrow> string list + 'a \<Rightarrow> (string \<times> string) list + 'a" where
  "at_path p r = (case r of Inl codes \<Rightarrow> Inl (map (Pair p) codes) | Inr v \<Rightarrow> Inr v)"

text \<open>Two keys together: both values, or the errors of both in the schema's order.\<close>

fun both :: "'e list + 'a \<Rightarrow> 'e list + 'b \<Rightarrow> 'e list + ('a \<times> 'b)" where
  "both (Inr a) (Inr b) = Inr (a, b)"
| "both (Inl e) (Inl f) = Inl (e @ f)"
| "both (Inl e) (Inr b) = Inl e"
| "both (Inr a) (Inl f) = Inl f"

definition plain :: StringSchema where
  "plain = \<lparr>s_lowercase = False, s_email = False, s_allow_empty = False\<rparr>"

text \<open>
  \<open>Joi.object().pattern(key, value)\<close> on the entries of \<open>headers\<close>: an entry whose key
  matches the key schema has its value validated; any other entry is an unknown key and
  is stripped.
\<close>

fun header_entries ::
  "Library \<Rightarrow> (string \<times> json) list \<Rightarrow> (string \<times> string) list + (string \<times> string) list" where
  "header_entries lib [] = Inr []"
| "header_entries lib ((k, j) # kvs) =
     (if trim k = [] then header_entries lib kvs
      else (case both (at_path (''headers.'' @ k) (string_rules lib plain j))
                      (header_entries lib kvs) of
              Inl e \<Rightarrow> Inl e
            | Inr (v, rest) \<Rightarrow> Inr ((k, v) # rest)))"

definition headers_schema ::
  "Library \<Rightarrow> json option \<Rightarrow> (string \<times> string) list + (string \<times> string) list" where
  "headers_schema lib v =
     (case v of
        None \<Rightarrow> Inr []
      | Some (JObj kvs) \<Rightarrow> header_entries lib kvs
      | Some _ \<Rightarrow> Inl [(''headers'', ''object.base'')])"

definition address :: StringSchema where
  "address = \<lparr>s_lowercase = True, s_email = True, s_allow_empty = False\<rparr>"

definition content :: StringSchema where
  "content = \<lparr>s_lowercase = False, s_email = False, s_allow_empty = True\<rparr>"

text \<open>\<open>schema.validate(params.body, {abortEarly: false, stripUnknown: true})\<close>, lines 25 to 41.\<close>

definition schema_validate ::
  "Library \<Rightarrow> json \<Rightarrow> (string \<times> string) list + SendEmailBody" where
  "schema_validate lib body =
     (case body of
        JObj kvs \<Rightarrow>
          (let field = map_of kvs in
           case both (at_path ''from'' (string_required lib plain (field ''from'')))
               (both (at_path ''to'' (string_required lib address (field ''to'')))
               (both (at_path ''replyTo'' (string_optional lib address (field ''replyTo'')))
               (both (at_path ''subject'' (string_required lib plain (field ''subject'')))
               (both (at_path ''text'' (string_optional lib content (field ''text'')))
               (both (at_path ''html'' (string_optional lib content (field ''html'')))
                     (headers_schema lib (field ''headers''))))))) of
             Inl details \<Rightarrow> Inl details
           | Inr (v_from, v_to, v_replyTo, v_subject, v_text, v_html, v_headers) \<Rightarrow>
               Inr \<lparr>b_from = v_from, b_to = One v_to, b_replyTo = map_option One v_replyTo,
                    b_subject = v_subject, b_text = v_text, b_html = v_html,
                    b_headers = v_headers\<rparr>)
      | _ \<Rightarrow> Inl [([], ''object.base'')])"

section \<open>validate\<close>

text \<open>
  Lines 24 to 55 of the send route: the schema's error is thrown as it is; a value whose
  \<open>text\<close> and \<open>html\<close> are both falsy is a \<open>bad_request\<close>; otherwise the parameters
  are returned with the validated value as their body.
\<close>

definition validate ::
  "Library \<Rightarrow> (json, 'ctx) RouteParams \<Rightarrow> error + (SendEmailBody, 'ctx) RouteParams" where
  "validate lib params =
     (case schema_validate lib (rp_body params) of
        Inl details \<Rightarrow> Inl (ValidationError details)
      | Inr v \<Rightarrow>
          if falsy (b_text v) \<and> falsy (b_html v)
          then Inl (HttpError ''bad_request'' ''Either text or html is required.'')
          else Inr \<lparr>rp_body = v, rp_userId = rp_userId params, rp_user = rp_user params,
                    rp_context = rp_context params\<rparr>)"

section \<open>The datastore and the collaborators of the send route\<close>

text \<open>
  The tables the handler reads and writes, with the columns it uses. The schemas of
  \<open>projects\<close>, \<open>projectIdentities\<close>, \<open>emailLogs\<close> and \<open>emailLogEvents\<close> are not
  among the sources; the columns are those the handler names.
\<close>

record Project =
  p_id :: string
  p_accessKeyId :: "string option"
  p_secretAccessKey :: "string option"
  p_region :: "string option"

record ProjectIdentity =
  i_projectId :: string
  i_domain :: string
  i_status :: string
  i_configurationSetName :: "string option"

record ProjectApiKey =
  k_id :: string
  k_projectId :: string

record EmailLog =
  l_id :: string
  l_messageId :: "string option"
  l_projectId :: string
  l_apiKeyId :: string
  l_from :: string
  l_to :: Recipients
  l_replyTo :: "Recipients option"
  l_subject :: string
  l_text :: "string option"
  l_html :: "string option"
  l_status :: string
  l_createdAt :: nat
  l_updatedAt :: nat

record EmailLogEvent =
  e_id :: string
  e_emailLogId :: string
  e_email :: Recipients
  e_type :: string
  e_timestamp :: nat

record SesConfig =
  ses_accessKeyId :: string
  ses_secretAccessKey :: string
  ses_region :: string

record ProviderConfig =
  provider :: string
  ses :: SesConfig

text \<open>What \<open>sendEmail\<close> resolves to: \<open>{ data, error }\<close>.\<close>

record SendEmailData =
  messageId :: string

record SendEmailError =
  message :: string

record SendEmailResult =
  r_data :: "SendEmailData option"
  r_error :: "SendEmailError option"

record SendEmailResponse =
  resp_id :: string

text \<open>The calls a run makes to the datastore and to its collaborators, in order.\<close>

datatype Call =
    AuthenticateApiKey
  | FindProject string
  | FindIdentity string "string option"
  | SendEmail ProviderConfig SendEmailBody
  | InsertEmailLog string
  | InsertEmailLogEvent string

text \<open>
  The state a run of the handler works on: the four tables, how many ids \<open>newId\<close> has
  issued, how many times the clock has been read, and the calls made so far. The handler
  has no \<open>try\<close> block and the tables here answer every query and take every insert: a
  datastore that throws is modelled for the middleware only, which catches its error.
\<close>

record World =
  projects :: "Project list"
  projectIdentities :: "ProjectIdentity list"
  emailLogs :: "EmailLog list"
  emailLogEvents :: "EmailLogEvent list"
  idsIssued :: nat
  clockReads :: nat
  calls :: "Call list"

text \<open>
  The collaborators that are not among the sources, as parameters of a run:
  \<open>authenticateApiKey\<close> (it returns the key's row or throws), \<open>sendEmail\<close>, the constant
  \<open>DEFAULT_SES_REGION\<close>, the id that the n-th call of \<open>newId\<close> returns for a prefix,
  and the time the n-th \<open>new Date()\<close> reads.
\<close>

record 'ctx Env =
  authenticateApiKey :: "'ctx \<Rightarrow> error + ProjectApiKey"
  sendEmail :: "ProviderConfig \<Rightarrow> SendEmailBody \<Rightarrow> SendEmailResult"
  DEFAULT_SES_REGION :: string
  idgen :: "string \<Rightarrow> nat \<Rightarrow> string"
  clock :: "nat \<Rightarrow> nat"

definition called :: "Call \<Rightarrow> World \<Rightarrow> World" where
  "called c w = w\<lparr>calls := calls w @ [c]\<rparr>"

definition newId :: "'ctx Env \<Rightarrow> string \<Rightarrow> World \<Rightarrow> string \<times> World" where
  "newId env prefix w = (idgen env prefix (idsIssued w), w\<lparr>idsIssued := Suc (idsIssued w)\<rparr>)"

definition new_Date :: "'ctx Env \<Rightarrow> World \<Rightarrow> nat \<times> World" where
  "new_Date env w = (clock env (clockReads w), w\<lparr>clockReads := Suc (clockReads w)\<rparr>)"

text \<open>\<open>db.query.projects.findFirst\<close> with \<open>eq(fields.id, projectId)\<close>.\<close>

definition findFirst_project :: "string \<Rightarrow> World \<Rightarrow> Project option \<times> World" where
  "findFirst_project pid w =
     (find (\<lambda>p. p_id p = pid) (projects w), called (FindProject pid) w)"

text \<open>
  \<open>db.query.projectIdentities.findFirst\<close> with \<open>and(eq(fields.projectId, project.id),
  eq(fields.domain, fromDomain))\<close>. An undefined \<open>fromDomain\<close> equals no row's domain.
\<close>

definition findFirst_identity ::
  "string \<Rightarrow> string option \<Rightarrow> World \<Rightarrow> ProjectIdentity option \<times> World" where
  "findFirst_identity pid d w =
     (find (\<lambda>i. i_projectId i = pid \<and> Some (i_domain i) = d) (projectIdentities w),
      called (FindIdentity pid d) w)"

definition insert_emailLog :: "EmailLog \<Rightarrow> World \<Rightarrow> World" where
  "insert_emailLog row w =
     called (InsertEmailLog (l_id row)) (w\<lparr>emailLogs := emailLogs w @ [row]\<rparr>)"

definition insert_emailLogEvent :: "EmailLogEvent \<Rightarrow> World \<Rightarrow> World" where
  "insert_emailLogEvent row w =
     called (InsertEmailLogEvent (e_id row)) (w\<lparr>emailLogEvents := emailLogEvents w @ [row]\<rparr>)"

text \<open>How a template literal prints an optional string.\<close>

fun shown :: "string option \<Rightarrow> string" where
  "shown None = ''undefined''"
| "shown (Some s) = s"

section \<open>handle\<close>

text \<open>
  Lines 132 to 157: the provider reported an error. The log row takes a third id of its
  own; the event row refers to \<open>emailLogId\<close>.
\<close>

definition log_failure ::
  "'ctx Env \<Rightarrow> SendEmailBody \<Rightarrow> Project \<Rightarrow> ProjectApiKey \<Rightarrow> string \<Rightarrow> string \<Rightarrow>
   SendEmailError \<Rightarrow> World \<Rightarrow> (error + SendEmailResponse) \<times> World" where
  "log_failure env body project projectApiKey emailLogId emailLogEventId err w =
     (let (rowId, w1) = newId env ''emailLog'' w;
          (createdAt, w2) = new_Date env w1;
          (updatedAt, w3) = new_Date env w2;
          w4 = insert_emailLog
                 \<lparr>l_id = rowId, l_messageId = None, l_projectId = p_id project,
                  l_apiKeyId = k_id projectApiKey, l_from = b_from body, l_to = b_to body,
                  l_replyTo = b_replyTo body, l_subject = b_subject body,
                  l_text = b_text body, l_html = b_html body, l_status = ''error'',
                  l_createdAt = createdAt, l_updatedAt = updatedAt\<rparr> w3;
          (timestamp, w5) = new_Date env w4;
          w6 = insert_emailLogEvent
                 \<lparr>e_id = emailLogEventId, e_emailLogId = emailLogId, e_email = b_to body,
                  e_type = ''error'', e_timestamp = timestamp\<rparr> w5
      in (Inl (HttpError ''bad_request'' (message err)), w6))"

text \<open>
  Lines 159 to 184: the provider reported no error. Reading \<open>data.messageId\<close> of an
  undefined \<open>data\<close> throws before anything is inserted.
\<close>

definition log_success ::
  "'ctx Env \<Rightarrow> SendEmailBody \<Rightarrow> Project \<Rightarrow> ProjectApiKey \<Rightarrow> string \<Rightarrow> string \<Rightarrow>
   SendEmailData option \<Rightarrow> World \<Rightarrow> (error + SendEmailResponse) \<times> World" where
  "log_success env body project projectApiKey emailLogId emailLogEventId data_opt w =
     (case data_opt of
        None \<Rightarrow> (Inl (Thrown ''TypeError''), w)
      | Some d \<Rightarrow>
          (let (createdAt, w1) = new_Date env w;
               (updatedAt, w2) = new_Date env w1;
               w3 = insert_emailLog
                      \<lparr>l_id = emailLogId, l_messageId = Some (messageId d),
                       l_projectId = p_id project, l_apiKeyId = k_id projectApiKey,
                       l_from = b_from body, l_to = b_to body, l_replyTo = b_replyTo body,
                       l_subject = b_subject body, l_text = b_text body, l_html = b_html body,
                       l_status = ''sending'', l_createdAt = createdAt,
                       l_updatedAt = updatedAt\<rparr> w2;
               (timestamp, w4) = new_Date env w3;
               w5 = insert_emailLogEvent
                      \<lparr>e_id = emailLogEventId, e_emailLogId = emailLogId, e_email = b_to body,
                       e_type = ''sending'', e_timestamp = timestamp\<rparr> w4
           in (Inr \<lparr>resp_id = emailLogId\<rparr>, w5)))"

text \<open>Lines 115 to 122: the provider and the project's credentials.\<close>

definition provider_config :: "'ctx Env \<Rightarrow> string \<Rightarrow> string \<Rightarrow> Project \<Rightarrow> ProviderConfig" where
  "provider_config env accessKeyId secretAccessKey project =
     \<lparr>provider = ''ses'',
      ses = \<lparr>ses_accessKeyId = accessKeyId, ses_secretAccessKey = secretAccessKey,
             ses_region = (case truthy (p_region project) of
                             Some region \<Rightarrow> region
                           | None \<Rightarrow> DEFAULT_SES_REGION env)\<rparr>\<rparr>"

text \<open>Lines 123 to 129: the body with the configuration set among its headers.\<close>

definition outgoing :: "SendEmailBody \<Rightarrow> string \<Rightarrow> SendEmailBody" where
  "outgoing body configurationSetName =
     body\<lparr>b_headers :=
       AList.update ''X-SES-CONFIGURATION-SET'' configurationSetName (b_headers body)\<rparr>"

text \<open>Lines 109 to 134: the credentials, the dispatch, the two ids, the outcome.\<close>

definition dispatch ::
  "'ctx Env \<Rightarrow> SendEmailBody \<Rightarrow> Project \<Rightarrow> ProjectApiKey \<Rightarrow> string \<Rightarrow> World \<Rightarrow>
   (error + SendEmailResponse) \<times> World" where
  "dispatch env body project projectApiKey configurationSetName w =
     (case (truthy (p_accessKeyId project), truthy (p_secretAccessKey project)) of
        (Some accessKeyId, Some secretAccessKey) \<Rightarrow>
          (let config = provider_config env accessKeyId secretAccessKey project;
               email = outgoing body configurationSetName;
               result = sendEmail env config email;
               w1 = called (SendEmail config email) w;
               (emailLogId, w2) = newId env ''emailLog'' w1;
               (emailLogEventId, w3) = newId env ''emailLogEvent'' w2
           in case r_error result of
                Some err \<Rightarrow>
                  log_failure env body project projectApiKey emailLogId emailLogEventId err w3
              | None \<Rightarrow>
                  log_success env body project projectApiKey emailLogId emailLogEventId
                    (r_data result) w3)
      | _ \<Rightarrow> (Inl (HttpError ''bad_request'' ''Invalid project credentials''), w))"

text \<open>Lines 57 to 107: the key, the project, the recipients, the identity.\<close>

definition handle ::
  "'ctx Env \<Rightarrow> (SendEmailBody, 'ctx) RouteParams \<Rightarrow> World \<Rightarrow>
   (error + SendEmailResponse) \<times> World" where
  "handle env params w =
     (let body = rp_body params;
          w1 = called AuthenticateApiKey w
      in case authenticateApiKey env (rp_context params) of
           Inl e \<Rightarrow> (Inl e, w1)
         | Inr projectApiKey \<Rightarrow>
             (case findFirst_project (k_projectId projectApiKey) w1 of
                (None, w2) \<Rightarrow> (Inl (HttpError ''not_found'' ''Project not found''), w2)
              | (Some project, w2) \<Rightarrow>
                  if isArray (b_to body) \<or> isArray_opt (b_replyTo body)
                  then (Inl (HttpError ''bad_request'' ''Multiple recipients are not supported.''),
                        w2)
                  else
                    (let fromDomain = fromDomain (b_from body) in
                     case findFirst_identity (p_id project) fromDomain w2 of
                       (None, w3) \<Rightarrow>
                         (Inl (HttpError ''bad_request''
                                 (''You are not allowed to send email from '' @ shown fromDomain
                                  @ '' domain.'')), w3)
                     | (Some identity, w3) \<Rightarrow>
                         if i_status identity \<noteq> ''success''
                         then (Inl (HttpError ''bad_request''
                                      (''Identity '' @ shown fromDomain @ '' is not verified.'')),
                               w3)
                         else
                           (case truthy (i_configurationSetName identity) of
                              None \<Rightarrow>
                                (Inl (HttpError ''bad_request''
                                        (''Configuration set is not configured for ''
                                         @ shown fromDomain @ '' domain.'')), w3)
                            | Some configurationSetName \<Rightarrow>
                                dispatch env body project projectApiKey
                                  configurationSetName w3))))"

section \<open>The route\<close>

text \<open>
  Modelled from the spec: the combinator \<open>handler\<close> of \<open>@/lib/handler\<close>, which builds
  the route from \<open>handle\<close> and \<open>validate\<close>, is not among the sources. The spec's control
  flow has the route validate the body first and run the handler on the validated
  parameters; an error of either is returned to the response boundary.
\<close>

definition POST ::
  "Library \<Rightarrow> 'ctx Env \<Rightarrow> (json, 'ctx) RouteParams \<Rightarrow> World \<Rightarrow>
   (error + SendEmailResponse) \<times> World" where
  "POST lib env params w =
     (case validate lib params of
        Inl e \<Rightarrow> (Inl e, w)
      | Inr validated \<Rightarrow> handle env validated w)"

section \<open>The session middleware\<close>

text \<open>The \<open>users\<close> table, lines 50 to 82 of the middleware's file.\<close>

datatype AuthProvider = Github | Google | Email

record User =
  u_id :: string
  u_name :: string
  u_email :: string
  u_password :: string
  u_isEnabled :: bool
  u_authProvider :: AuthProvider
  u_verificationCode :: "string option"
  u_verificationCodeAt :: "string option"
  u_resetPasswordCode :: "string option"
  u_resetPasswordCodeAt :: "string option"
  u_verifiedAt :: "nat option"
  u_createdAt :: nat
  u_updatedAt :: nat

text \<open>The datastore as the middleware meets it: the rows, or the error a query throws.\<close>

record Datastore =
  users :: "User list"
  fault :: "error option"

record TokenPayload =
  t_id :: string

text \<open>
  The parameters of the middleware that are not among the sources: the cookie's name,
  \<open>decodeToken\<close> (it returns the payload or throws) and \<open>import.meta.env.DEV\<close>.
\<close>

record MwEnv =
  TOKEN_COOKIE_NAME :: string
  decodeToken :: "string \<Rightarrow> error + TokenPayload"
  DEV :: bool

text \<open>The request context: its cookies and the two locals the middleware sets.\<close>

record APIContext =
  cookies :: "(string \<times> string) list"
  currentUser :: "CurrentUser option"
  currentUserId :: "string option"

datatype MwCall =
    DecodeToken string
  | FindUser string
  | ConsoleLog string
  | ConsoleLogUser CurrentUser
  | LogError error
  | Next

definition columns :: "User \<Rightarrow> CurrentUser" where
  "columns u = \<lparr>cu_id = u_id u, cu_email = u_email u, cu_name = u_name u\<rparr>"

text \<open>\<open>db.query.users.findFirst\<close> with \<open>eq(users.id, id)\<close> and the three columns.\<close>

definition findFirst_user :: "string \<Rightarrow> Datastore \<Rightarrow> error + CurrentUser option" where
  "findFirst_user uid db =
     (case fault db of
        Some e \<Rightarrow> Inl e
      | None \<Rightarrow> Inr (map_option columns (find (\<lambda>u. u_id u = uid) (users db))))"

definition cookies_delete :: "string \<Rightarrow> APIContext \<Rightarrow> APIContext" where
  "cookies_delete name context =
     context\<lparr>cookies := filter (\<lambda>kv. fst kv \<noteq> name) (cookies context)\<rparr>"

text \<open>
  \<open>onRequest\<close>, lines 8 to 44. \<open>Inr context\<close>: \<open>next()\<close> was called with this context, and
  its response is the middleware's; \<open>Inl e\<close>: the middleware threw \<open>e\<close> and \<open>next()\<close> was
  not called. The second component lists the calls made, in order. \<open>decodeToken\<close> is
  called before the \<open>try\<close> block is entered.
\<close>

definition onRequest ::
  "MwEnv \<Rightarrow> Datastore \<Rightarrow> APIContext \<Rightarrow> (error + APIContext) \<times> MwCall list" where
  "onRequest env db context =
     (case truthy (map_of (cookies context) (TOKEN_COOKIE_NAME env)) of
        None \<Rightarrow> (Inr context, [Next])
      | Some userAuthToken \<Rightarrow>
          (case decodeToken env userAuthToken of
             Inl e \<Rightarrow> (Inl e, [DecodeToken userAuthToken])
           | Inr payload \<Rightarrow>
               (case findFirst_user (t_id payload) db of
                  Inr None \<Rightarrow>
                    (Inr (cookies_delete (TOKEN_COOKIE_NAME env) context),
                     [DecodeToken userAuthToken, FindUser (t_id payload), Next])
                | Inr (Some user) \<Rightarrow>
                    (Inr (context\<lparr>currentUser := Some user, currentUserId := Some (cu_id user)\<rparr>),
                     [DecodeToken userAuthToken, FindUser (t_id payload),
                      ConsoleLog (replicate 20 (CHR ''-'')), ConsoleLogUser user,
                      ConsoleLog (replicate 20 (CHR ''-'')), Next])
                | Inl e \<Rightarrow>
                    if \<not> DEV env
                    then (Inr (cookies_delete (TOKEN_COOKIE_NAME env) context),
                          [DecodeToken userAuthToken, FindUser (t_id payload), Next])
                    else (Inr context,
                          [DecodeToken userAuthToken, FindUser (t_id payload), LogError e,
                           Next]))))"

section \<open>Vocabulary of the statements\<close>

text \<open>A run that ends in \<open>new HttpError(t, ...)\<close>.\<close>

fun fails_with :: "string \<Rightarrow> error + 'a \<Rightarrow> bool" where
  "fails_with t (Inl (HttpError t' m)) = (t' = t)"
| "fails_with t _ = False"

text \<open>The calls of one run: those of the final state that the initial state did not have.\<close>

definition new_calls :: "World \<Rightarrow> World \<Rightarrow> Call list" where
  "new_calls w w' = drop (length (calls w)) (calls w')"

fun isSendEmail :: "Call \<Rightarrow> bool" where
  "isSendEmail (SendEmail c b) = True"
| "isSendEmail _ = False"

fun isFindIdentity :: "Call \<Rightarrow> bool" where
  "isFindIdentity (FindIdentity p d) = True"
| "isFindIdentity _ = False"

text \<open>A key of the request body: \<open>undefined\<close> when the body is no object or lacks it.\<close>

fun supplied :: "json \<Rightarrow> string \<Rightarrow> json option" where
  "supplied (JObj kvs) k = map_of kvs k"
| "supplied _ k = None"

text \<open>A key supplied as a string that is not blank: the content the body rule asks for.\<close>

fun nonblank :: "json option \<Rightarrow> bool" where
  "nonblank (Some (JStr s)) = (trim s \<noteq> [])"
| "nonblank _ = False"

text \<open>A key supplied as an array.\<close>

fun isJArr :: "json option \<Rightarrow> bool" where
  "isJArr (Some (JArr xs)) = True"
| "isJArr _ = False"

section \<open>Example data\<close>

text \<open>
  The request of the comment that closes the send route (lines 192 to 201), a project
  \<open>p1\<close> with the verified identity \<open>mly.fyi\<close>, and collaborators that accept it: ids are
  the prefix followed by one \<open>+\<close> for each id issued before, the clock counts from 1000.
\<close>

text \<open>
  The library's parameters for the example: an address holds an \<open>@\<close>, and lower case
  on ASCII text, which the example's addresses are.
\<close>

definition lower_ascii :: "string \<Rightarrow> string" where
  "lower_ascii s =
     map (\<lambda>c. let n = (of_char c :: nat) in if 65 \<le> n \<and> n \<le> 90 then char_of (n + 32) else c) s"

definition example_lib :: Library where
  "example_lib = \<lparr>isEmail = (\<lambda>s. CHR ''@'' \<in> set s), toLocaleLowerCase = lower_ascii\<rparr>"

definition example_key :: ProjectApiKey where
  "example_key = \<lparr>k_id = ''key1'', k_projectId = ''p1''\<rparr>"

definition example_project :: Project where
  "example_project =
     \<lparr>p_id = ''p1'', p_accessKeyId = Some ''AK'', p_secretAccessKey = Some ''SK'',
      p_region = None\<rparr>"

definition example_identity :: ProjectIdentity where
  "example_identity =
     \<lparr>i_projectId = ''p1'', i_domain = ''mly.fyi'', i_status = ''success'',
      i_configurationSetName = Some ''tracking''\<rparr>"

definition example_env :: "unit Env" where
  "example_env =
     \<lparr>authenticateApiKey = (\<lambda>_. Inr example_key),
      sendEmail = (\<lambda>_ _. \<lparr>r_data = Some \<lparr>messageId = ''ses-1''\<rparr>, r_error = None\<rparr>),
      DEFAULT_SES_REGION = ''us-east-1'',
      idgen = (\<lambda>prefix n. prefix @ replicate n (CHR ''+'')),
      clock = (\<lambda>n. 1000 + n)\<rparr>"

text \<open>The same collaborators with a provider that reports an error.\<close>

definition failing_env :: "unit Env" where
  "failing_env =
     example_env\<lparr>sendEmail :=
       (\<lambda>_ _. \<lparr>r_data = None, r_error = Some \<lparr>message = ''Email address is not verified.''\<rparr>\<rparr>)\<rparr>"

definition example_world :: World where
  "example_world =
     \<lparr>projects = [example_project], projectIdentities = [example_identity],
      emailLogs = [], emailLogEvents = [], idsIssued = 0, clockReads = 0, calls = []\<rparr>"

definition example_body :: SendEmailBody where
  "example_body =
     \<lparr>b_from = ''hello@mly.fyi'', b_to = One ''imarikchakma@gmail.com'', b_replyTo = None,
      b_subject = ''Hello'', b_text = Some ''Hello World'',
      b_html = Some ''<p>Hello World</p>'', b_headers = []\<rparr>"

definition example_params :: "(SendEmailBody, unit) RouteParams" where
  "example_params =
     \<lparr>rp_body = example_body, rp_userId = None, rp_user = None, rp_context = ()\<rparr>"

definition request :: "json \<Rightarrow> (json, unit) RouteParams" where
  "request body = \<lparr>rp_body = body, rp_userId = None, rp_user = None, rp_context = ()\<rparr>"

text \<open>The body of that request as it arrives, and the same without \<open>text\<close> and \<open>html\<close>.\<close>

definition example_request :: json where
  "example_request =
     JObj [(''from'', JStr ''hello@mly.fyi''), (''to'', JStr ''imarikchakma@gmail.com''),
           (''subject'', JStr ''Hello''), (''text'', JStr ''Hello World''),
           (''html'', JStr ''<p>Hello World</p>'')]"

definition no_content_body :: json where
  "no_content_body =
     JObj [(''from'', JStr ''hello@mly.fyi''), (''to'', JStr ''imarikchakma@gmail.com''),
           (''subject'', JStr ''Hello'')]"

text \<open>The request body with an empty \<open>text\<close> and no \<open>html\<close>.\<close>

definition empty_text_body :: json where
  "empty_text_body =
     JObj [(''from'', JStr ''hello@mly.fyi''), (''to'', JStr ''imarikchakma@gmail.com''),
           (''subject'', JStr ''Hello''), (''text'', JStr [])]"

text \<open>The request body with a \<open>text\<close> of one no-break space (U+00A0) and no \<open>html\<close>.\<close>

definition nbsp_text_body :: json where
  "nbsp_text_body =
     JObj [(''from'', JStr ''hello@mly.fyi''), (''to'', JStr ''imarikchakma@gmail.com''),
           (''subject'', JStr ''Hello''), (''text'', JStr [CHR 0xC2, CHR 0xA0])]"

text \<open>The request body with two recipients, and with two addresses to reply to.\<close>

definition array_to_body :: json where
  "array_to_body =
     JObj [(''from'', JStr ''hello@mly.fyi''),
           (''to'', JArr [JStr ''a@b.com'', JStr ''c@d.com'']),
           (''subject'', JStr ''Hello''), (''text'', JStr ''Hello World'')]"

definition array_replyTo_body :: json where
  "array_replyTo_body =
     JObj [(''from'', JStr ''hello@mly.fyi''), (''to'', JStr ''imarikchakma@gmail.com''),
           (''replyTo'', JArr [JStr ''a@b.com'', JStr ''c@d.com'']),
           (''subject'', JStr ''Hello''), (''text'', JStr ''Hello World'')]"

text \<open>The validated parameters with another sender.\<close>

definition from_other :: "(SendEmailBody, unit) RouteParams" where
  "from_other = example_params\<lparr>rp_body := example_body\<lparr>b_from := ''hello@other.org''\<rparr>\<rparr>"

text \<open>The same tables with the identity not yet verified.\<close>

definition pending_identity :: ProjectIdentity where
  "pending_identity = example_identity\<lparr>i_status := ''pending''\<rparr>"

definition pending_world :: World where
  "pending_world = example_world\<lparr>projectIdentities := [pending_identity]\<rparr>"

text \<open>A session: one user, disabled and not verified, and a token that decodes to its id.\<close>

definition example_user :: User where
  "example_user =
     \<lparr>u_id = ''u1'', u_name = ''Ada'', u_email = ''ada@mly.fyi'', u_password = ''hash'',
      u_isEnabled = False, u_authProvider = Email, u_verificationCode = None,
      u_verificationCodeAt = None, u_resetPasswordCode = None,
      u_resetPasswordCodeAt = None, u_verifiedAt = None, u_createdAt = 1, u_updatedAt = 1\<rparr>"

definition example_mw :: MwEnv where
  "example_mw =
     \<lparr>TOKEN_COOKIE_NAME = ''token'',
      decodeToken = (\<lambda>t. if t = ''good'' then Inr \<lparr>t_id = ''u1''\<rparr>
                          else Inl (Thrown ''InvalidToken'')),
      DEV = False\<rparr>"

definition example_db :: Datastore where
  "example_db = \<lparr>users = [example_user], fault = None\<rparr>"

definition with_cookie :: "string \<Rightarrow> APIContext" where
  "with_cookie t = \<lparr>cookies = [(''token'', t)], currentUser = None, currentUserId = None\<rparr>"

lemmas example_defs =
  example_lib_def example_key_def example_project_def example_identity_def
  example_env_def failing_env_def example_world_def example_body_def example_params_def
  request_def example_user_def example_mw_def example_db_def with_cookie_def
  empty_text_body_def from_other_def nbsp_text_body_def array_to_body_def
  array_replyTo_body_def pending_identity_def pending_world_def
  example_request_def no_content_body_def

lemmas handle_defs =
  handle_def findFirst_project_def findFirst_identity_def called_def dispatch_def
  log_success_def log_failure_def newId_def new_Date_def insert_emailLog_def
  insert_emailLogEvent_def Let_def

section \<open>The sender's domain\<close>

lemma split_nonempty: "split c s \<noteq> []"
  by (induction s) (auto split: list.splits)

lemma split_no_separator: "c \<notin> set s \<Longrightarrow> split c s = [s]"
  by (induction s) auto

lemma split_at_first: "c \<notin> set pre \<Longrightarrow> split c (pre @ c # rest) = pre # split c rest"
  by (induction pre) auto

lemma split_head: "\<exists>ss. split c s = takeWhile (\<lambda>x. x \<noteq> c) s # ss"
  by (induction s) (auto split: list.splits)

lemma fromDomain_undefined: "CHR ''@'' \<notin> set from_addr \<Longrightarrow> fromDomain from_addr = None"
  by (simp add: fromDomain_def split_no_separator)

lemma fromDomain_segment:
  assumes "CHR ''@'' \<in> set from_addr"
  shows "fromDomain from_addr
         = Some (takeWhile (\<lambda>c. c \<noteq> CHR ''@'') (after_first_at from_addr))"
proof -
  from assms obtain pre rest
    where s: "from_addr = pre @ CHR ''@'' # rest" and pre: "CHR ''@'' \<notin> set pre"
    using split_list_first by fastforce
  have d: "dropWhile (\<lambda>c. c \<noteq> CHR ''@'') from_addr = CHR ''@'' # rest"
    unfolding s using pre by (induction pre) auto
  obtain ss where ss: "split (CHR ''@'') rest = takeWhile (\<lambda>x. x \<noteq> CHR ''@'') rest # ss"
    using split_head by blast
  have "split (CHR ''@'') from_addr = pre # takeWhile (\<lambda>x. x \<noteq> CHR ''@'') rest # ss"
    unfolding s using pre by (simp add: split_at_first ss)
  then show ?thesis
    by (simp add: fromDomain_def after_first_at_def d)
qed

lemma count_after_first:
  "c \<in> set s \<Longrightarrow> count_list s c = Suc (count_list (tl (dropWhile (\<lambda>x. x \<noteq> c) s)) c)"
  by (induction s) auto

text \<open>
  C9, as amended. For every \<open>from\<close> that contains an \<open>@\<close>, the domain used in the identity
  lookup is the text between the first \<open>@\<close> and the next one (or the end of the string).
  It is everything after the first \<open>@\<close> exactly when \<open>from\<close> contains one \<open>@\<close> only.
\<close>

theorem fromDomain_between_first_and_second_at:
  assumes "CHR ''@'' \<in> set from_addr"
  shows "fromDomain from_addr
           = Some (takeWhile (\<lambda>c. c \<noteq> CHR ''@'') (after_first_at from_addr))
       \<and> (fromDomain from_addr = Some (after_first_at from_addr)
            \<longleftrightarrow> count_list from_addr (CHR ''@'') = 1)"
proof -
  let ?r = "after_first_at from_addr"
  have 1: "fromDomain from_addr = Some (takeWhile (\<lambda>c. c \<noteq> CHR ''@'') ?r)"
    by (rule fromDomain_segment[OF assms])
  have 2: "count_list from_addr (CHR ''@'') = Suc (count_list ?r (CHR ''@''))"
    unfolding after_first_at_def by (rule count_after_first[OF assms])
  have 3: "takeWhile (\<lambda>c. c \<noteq> CHR ''@'') ?r = ?r \<longleftrightarrow> CHR ''@'' \<notin> set ?r"
    by (auto simp: takeWhile_eq_all_conv)
  have 4: "count_list ?r (CHR ''@'') = 0 \<longleftrightarrow> CHR ''@'' \<notin> set ?r"
    by (simp add: count_list_0_iff)
  show ?thesis
    using 1 2 3 4 by simp
qed

theorem fromDomain_between_first_and_second_at_witness:
  "CHR ''@'' \<in> set ''hello@mly.fyi''
   \<and> fromDomain ''hello@mly.fyi'' = Some ''mly.fyi''
   \<and> after_first_at ''hello@mly.fyi'' = ''mly.fyi''"
  using fromDomain_between_first_and_second_at[of "''hello@mly.fyi''"]
  by (simp add: after_first_at_def)

text \<open>
  C9 as stated fails for an address with two \<open>@\<close>: the lookup uses \<open>b\<close>, the text after
  the first \<open>@\<close> is \<open>b@c\<close>.
\<close>

theorem fromDomain_two_at_counterexample:
  "fromDomain ''a@b@c'' = Some ''b''
   \<and> after_first_at ''a@b@c'' = ''b@c''
   \<and> fromDomain ''a@b@c'' \<noteq> Some (after_first_at ''a@b@c'')"
  by (simp add: fromDomain_def after_first_at_def)


section \<open>The send pipeline\<close>

lemma falsy_truthy: "falsy v \<longleftrightarrow> truthy v = None"
  by (cases v) auto

text \<open>
  C1. A request that reaches the provider (the key authenticates, its project exists, both
  address fields are single, the identity of the sender's domain is verified and has a
  configuration set, the project has credentials) and whose dispatch succeeds appends
  exactly one \<open>sending\<close> log row carrying the provider's message id and exactly one
  \<open>sending\<close> event whose \<open>emailLogId\<close> is that row's id, and responds with that id.
\<close>

theorem handle_success_logs_sending:
  assumes auth: "authenticateApiKey env (rp_context params) = Inr projectApiKey"
    and proj: "find (\<lambda>p. p_id p = k_projectId projectApiKey) (projects w) = Some project"
    and single: "\<not> isArray (b_to (rp_body params))"
                "\<not> isArray_opt (b_replyTo (rp_body params))"
    and ident: "find (\<lambda>i. i_projectId i = p_id project
                          \<and> Some (i_domain i) = fromDomain (b_from (rp_body params)))
                  (projectIdentities w) = Some identity"
    and status: "i_status identity = ''success''"
    and cs: "truthy (i_configurationSetName identity) = Some configurationSetName"
    and creds: "truthy (p_accessKeyId project) = Some accessKeyId"
               "truthy (p_secretAccessKey project) = Some secretAccessKey"
    and sent: "sendEmail env (provider_config env accessKeyId secretAccessKey project)
                 (outgoing (rp_body params) configurationSetName)
               = \<lparr>r_data = Some d, r_error = None\<rparr>"
  shows "handle env params w =
     (Inr \<lparr>resp_id = idgen env ''emailLog'' (idsIssued w)\<rparr>,
      w\<lparr>emailLogs := emailLogs w @
           [\<lparr>l_id = idgen env ''emailLog'' (idsIssued w), l_messageId = Some (messageId d),
             l_projectId = p_id project, l_apiKeyId = k_id projectApiKey,
             l_from = b_from (rp_body params), l_to = b_to (rp_body params),
             l_replyTo = b_replyTo (rp_body params), l_subject = b_subject (rp_body params),
             l_text = b_text (rp_body params), l_html = b_html (rp_body params),
             l_status = ''sending'', l_createdAt = clock env (clockReads w),
             l_updatedAt = clock env (Suc (clockReads w))\<rparr>],
        emailLogEvents := emailLogEvents w @
           [\<lparr>e_id = idgen env ''emailLogEvent'' (Suc (idsIssued w)),
             e_emailLogId = idgen env ''emailLog'' (idsIssued w),
             e_email = b_to (rp_body params), e_type = ''sending'',
             e_timestamp = clock env (Suc (Suc (clockReads w)))\<rparr>],
        idsIssued := Suc (Suc (idsIssued w)),
        clockReads := Suc (Suc (Suc (clockReads w))),
        calls := calls w @
           [AuthenticateApiKey, FindProject (k_projectId projectApiKey),
            FindIdentity (p_id project) (fromDomain (b_from (rp_body params))),
            SendEmail (provider_config env accessKeyId secretAccessKey project)
              (outgoing (rp_body params) configurationSetName),
            InsertEmailLog (idgen env ''emailLog'' (idsIssued w)),
            InsertEmailLogEvent (idgen env ''emailLogEvent'' (Suc (idsIssued w)))]\<rparr>)"
  using assms by (simp add: handle_defs)

lemma example_domain: "fromDomain ''hello@mly.fyi'' = Some ''mly.fyi''"
  by (simp add: fromDomain_def)

lemma other_domain: "fromDomain ''hello@other.org'' = Some ''other.org''"
  by (simp add: fromDomain_def)

theorem handle_success_logs_sending_witness:
  "authenticateApiKey example_env (rp_context example_params) = Inr example_key
   \<and> find (\<lambda>p. p_id p = k_projectId example_key) (projects example_world)
       = Some example_project
   \<and> find (\<lambda>i. i_projectId i = p_id example_project
                 \<and> Some (i_domain i) = fromDomain (b_from (rp_body example_params)))
        (projectIdentities example_world) = Some example_identity
   \<and> fst (handle example_env example_params example_world) = Inr \<lparr>resp_id = ''emailLog''\<rparr>
   \<and> map l_id (emailLogs (snd (handle example_env example_params example_world)))
       = [''emailLog'']
   \<and> map l_status (emailLogs (snd (handle example_env example_params example_world)))
       = [''sending'']
   \<and> map l_messageId (emailLogs (snd (handle example_env example_params example_world)))
       = [Some ''ses-1'']
   \<and> map e_emailLogId (emailLogEvents (snd (handle example_env example_params example_world)))
       = [''emailLog'']
   \<and> map e_type (emailLogEvents (snd (handle example_env example_params example_world)))
       = [''sending'']"
  using handle_success_logs_sending[of example_env example_params example_key example_world
      example_project example_identity "''tracking''" "''AK''" "''SK''" "\<lparr>messageId = ''ses-1''\<rparr>"]
  by (simp add: example_defs example_domain)

text \<open>
  C5. A request that reaches the provider and whose dispatch returns an error appends
  exactly one log row with status \<open>error\<close> and exactly one event of type \<open>error\<close>, and
  fails with a \<open>bad_request\<close> whose message is the provider's.
\<close>

theorem handle_provider_error_logs_error:
  assumes auth: "authenticateApiKey env (rp_context params) = Inr projectApiKey"
    and proj: "find (\<lambda>p. p_id p = k_projectId projectApiKey) (projects w) = Some project"
    and single: "\<not> isArray (b_to (rp_body params))"
                "\<not> isArray_opt (b_replyTo (rp_body params))"
    and ident: "find (\<lambda>i. i_projectId i = p_id project
                          \<and> Some (i_domain i) = fromDomain (b_from (rp_body params)))
                  (projectIdentities w) = Some identity"
    and status: "i_status identity = ''success''"
    and cs: "truthy (i_configurationSetName identity) = Some configurationSetName"
    and creds: "truthy (p_accessKeyId project) = Some accessKeyId"
               "truthy (p_secretAccessKey project) = Some secretAccessKey"
    and sent: "r_error (sendEmail env (provider_config env accessKeyId secretAccessKey project)
                 (outgoing (rp_body params) configurationSetName)) = Some err"
  shows "handle env params w =
     (Inl (HttpError ''bad_request'' (message err)),
      w\<lparr>emailLogs := emailLogs w @
           [\<lparr>l_id = idgen env ''emailLog'' (Suc (Suc (idsIssued w))), l_messageId = None,
             l_projectId = p_id project, l_apiKeyId = k_id projectApiKey,
             l_from = b_from (rp_body params), l_to = b_to (rp_body params),
             l_replyTo = b_replyTo (rp_body params), l_subject = b_subject (rp_body params),
             l_text = b_text (rp_body params), l_html = b_html (rp_body params),
             l_status = ''error'', l_createdAt = clock env (clockReads w),
             l_updatedAt = clock env (Suc (clockReads w))\<rparr>],
        emailLogEvents := emailLogEvents w @
           [\<lparr>e_id = idgen env ''emailLogEvent'' (Suc (idsIssued w)),
             e_emailLogId = idgen env ''emailLog'' (idsIssued w),
             e_email = b_to (rp_body params), e_type = ''error'',
             e_timestamp = clock env (Suc (Suc (clockReads w)))\<rparr>],
        idsIssued := Suc (Suc (Suc (idsIssued w))),
        clockReads := Suc (Suc (Suc (clockReads w))),
        calls := calls w @
           [AuthenticateApiKey, FindProject (k_projectId projectApiKey),
            FindIdentity (p_id project) (fromDomain (b_from (rp_body params))),
            SendEmail (provider_config env accessKeyId secretAccessKey project)
              (outgoing (rp_body params) configurationSetName),
            InsertEmailLog (idgen env ''emailLog'' (Suc (Suc (idsIssued w)))),
            InsertEmailLogEvent (idgen env ''emailLogEvent'' (Suc (idsIssued w)))]\<rparr>)"
  using assms by (simp add: handle_defs)

theorem handle_provider_error_logs_error_witness:
  "authenticateApiKey failing_env (rp_context example_params) = Inr example_key
   \<and> r_error (sendEmail failing_env
                (provider_config failing_env ''AK'' ''SK'' example_project)
                (outgoing (rp_body example_params) ''tracking''))
       = Some \<lparr>message = ''Email address is not verified.''\<rparr>
   \<and> fst (handle failing_env example_params example_world)
       = Inl (HttpError ''bad_request'' ''Email address is not verified.'')
   \<and> map l_status (emailLogs (snd (handle failing_env example_params example_world)))
       = [''error'']
   \<and> map e_type (emailLogEvents (snd (handle failing_env example_params example_world)))
       = [''error'']"
  using handle_provider_error_logs_error[of failing_env example_params example_key
      example_world example_project example_identity "''tracking''" "''AK''" "''SK''"
      "\<lparr>message = ''Email address is not verified.''\<rparr>"]
  by (simp add: example_defs example_domain)

text \<open>
  C2 fails on the provider-failure path. With the failing provider the log row is
  inserted under the third id issued, \<open>emailLog++\<close>, while the event row refers to the
  first, \<open>emailLog\<close>: no event of the run has the row's id as its \<open>emailLogId\<close>.
\<close>

theorem handle_failure_event_refers_to_no_row:
  "map l_id (emailLogs (snd (handle failing_env example_params example_world)))
     = [''emailLog++'']
   \<and> map e_emailLogId (emailLogEvents (snd (handle failing_env example_params example_world)))
     = [''emailLog'']"
  by (simp add: example_defs example_domain handle_defs provider_config_def outgoing_def)

text \<open>
  C3, as amended. An authenticated request with single addresses whose sender's domain
  has no identity row for the caller's project fails with a \<open>bad_request\<close> that names the
  domain; the run makes the three lookups and changes nothing else, so no log or event row
  is written.
\<close>

theorem handle_no_identity_bad_request:
  assumes auth: "authenticateApiKey env (rp_context params) = Inr projectApiKey"
    and proj: "find (\<lambda>p. p_id p = k_projectId projectApiKey) (projects w) = Some project"
    and single: "\<not> isArray (b_to (rp_body params))"
                "\<not> isArray_opt (b_replyTo (rp_body params))"
    and ident: "find (\<lambda>i. i_projectId i = p_id project
                          \<and> Some (i_domain i) = fromDomain (b_from (rp_body params)))
                  (projectIdentities w) = None"
  shows "handle env params w =
     (Inl (HttpError ''bad_request''
        (''You are not allowed to send email from ''
         @ shown (fromDomain (b_from (rp_body params))) @ '' domain.'')),
      w\<lparr>calls := calls w @
           [AuthenticateApiKey, FindProject (k_projectId projectApiKey),
            FindIdentity (p_id project) (fromDomain (b_from (rp_body params)))]\<rparr>)"
  using assms by (simp add: handle_defs)

theorem handle_no_identity_bad_request_witness:
  "authenticateApiKey example_env (rp_context from_other) = Inr example_key
   \<and> find (\<lambda>i. i_projectId i = p_id example_project
                 \<and> Some (i_domain i) = fromDomain (b_from (rp_body from_other)))
        (projectIdentities example_world) = None
   \<and> handle example_env from_other example_world =
       (Inl (HttpError ''bad_request''
               ''You are not allowed to send email from other.org domain.''),
        example_world\<lparr>calls := [AuthenticateApiKey, FindProject ''p1'',
                                  FindIdentity ''p1'' (Some ''other.org'')]\<rparr>)"
  using handle_no_identity_bad_request[of example_env from_other example_key example_world
      example_project]
  by (simp add: example_defs other_domain)

text \<open>
  C3 as stated fails: for a sender's domain without an identity row the error is a
  \<open>bad_request\<close>, not a \<open>not_found\<close>.
\<close>

theorem handle_no_identity_counterexample:
  "find (\<lambda>i. i_projectId i = p_id example_project
               \<and> Some (i_domain i) = fromDomain (b_from (rp_body from_other)))
     (projectIdentities example_world) = None
   \<and> \<not> fails_with ''not_found'' (fst (handle example_env from_other example_world))
   \<and> fails_with ''bad_request'' (fst (handle example_env from_other example_world))"
  by (simp add: example_defs other_domain handle_defs)

text \<open>
  The guard of lines 71 to 76: a run of the handler whose key authenticates and whose
  project exists, on parameters with an array for \<open>to\<close> or \<open>replyTo\<close>, fails with
  \<open>Multiple recipients are not supported.\<close> after those two calls.
\<close>

lemma handle_guard_multiple_recipients:
  assumes auth: "authenticateApiKey env (rp_context params) = Inr projectApiKey"
    and proj: "find (\<lambda>p. p_id p = k_projectId projectApiKey) (projects w) = Some project"
    and many: "isArray (b_to (rp_body params)) \<or> isArray_opt (b_replyTo (rp_body params))"
  shows "handle env params w =
     (Inl (HttpError ''bad_request'' ''Multiple recipients are not supported.''),
      w\<lparr>calls := calls w @ [AuthenticateApiKey, FindProject (k_projectId projectApiKey)]\<rparr>)"
  using assms by (auto simp add: handle_defs)

lemma handle_unverified:
  assumes auth: "authenticateApiKey env (rp_context params) = Inr projectApiKey"
    and proj: "find (\<lambda>p. p_id p = k_projectId projectApiKey) (projects w) = Some project"
    and single: "\<not> isArray (b_to (rp_body params))"
                "\<not> isArray_opt (b_replyTo (rp_body params))"
    and ident: "find (\<lambda>i. i_projectId i = p_id project
                          \<and> Some (i_domain i) = fromDomain (b_from (rp_body params)))
                  (projectIdentities w) = Some identity"
    and bad: "i_status identity \<noteq> ''success''"
  shows "handle env params w =
     (Inl (HttpError ''bad_request''
        (''Identity '' @ shown (fromDomain (b_from (rp_body params))) @ '' is not verified.'')),
      w\<lparr>calls := calls w @
           [AuthenticateApiKey, FindProject (k_projectId projectApiKey),
            FindIdentity (p_id project) (fromDomain (b_from (rp_body params)))]\<rparr>)"
  using assms by (simp add: handle_defs)

lemma handle_unconfigured:
  assumes auth: "authenticateApiKey env (rp_context params) = Inr projectApiKey"
    and proj: "find (\<lambda>p. p_id p = k_projectId projectApiKey) (projects w) = Some project"
    and single: "\<not> isArray (b_to (rp_body params))"
                "\<not> isArray_opt (b_replyTo (rp_body params))"
    and ident: "find (\<lambda>i. i_projectId i = p_id project
                          \<and> Some (i_domain i) = fromDomain (b_from (rp_body params)))
                  (projectIdentities w) = Some identity"
    and ok: "i_status identity = ''success''"
    and bad: "truthy (i_configurationSetName identity) = None"
  shows "handle env params w =
     (Inl (HttpError ''bad_request''
        (''Configuration set is not configured for ''
         @ shown (fromDomain (b_from (rp_body params))) @ '' domain.'')),
      w\<lparr>calls := calls w @
           [AuthenticateApiKey, FindProject (k_projectId projectApiKey),
            FindIdentity (p_id project) (fromDomain (b_from (rp_body params)))]\<rparr>)"
  using assms by (simp add: handle_defs)

text \<open>
  C4. For a request whose sender's domain resolves to an identity row of the caller's
  project: a run that calls the provider has an identity with status \<open>success\<close> and a
  configuration set; and if the status is not \<open>success\<close> or the configuration set is
  unset (or empty), the run fails with a \<open>bad_request\<close>, writes no log row and no event
  row, and does not call the provider.
\<close>

theorem handle_dispatch_only_when_verified_and_configured:
  assumes auth: "authenticateApiKey env (rp_context params) = Inr projectApiKey"
    and proj: "find (\<lambda>p. p_id p = k_projectId projectApiKey) (projects w) = Some project"
    and single: "\<not> isArray (b_to (rp_body params))"
                "\<not> isArray_opt (b_replyTo (rp_body params))"
    and ident: "find (\<lambda>i. i_projectId i = p_id project
                          \<and> Some (i_domain i) = fromDomain (b_from (rp_body params)))
                  (projectIdentities w) = Some identity"
    and run: "handle env params w = (res, w')"
  shows "(list_ex isSendEmail (new_calls w w') \<longrightarrow>
            i_status identity = ''success'' \<and> i_configurationSetName identity \<noteq> None)
       \<and> (i_status identity \<noteq> ''success'' \<or> falsy (i_configurationSetName identity) \<longrightarrow>
            (\<exists>m. res = Inl (HttpError ''bad_request'' m))
            \<and> emailLogs w' = emailLogs w \<and> emailLogEvents w' = emailLogEvents w
            \<and> \<not> list_ex isSendEmail (new_calls w w'))"
proof (cases "i_status identity \<noteq> ''success'' \<or> falsy (i_configurationSetName identity)")
  case True
  then consider "i_status identity \<noteq> ''success''"
    | "i_status identity = ''success''" "truthy (i_configurationSetName identity) = None"
    by (auto simp: falsy_truthy)
  then have "(\<exists>m. res = Inl (HttpError ''bad_request'' m))
      \<and> emailLogs w' = emailLogs w \<and> emailLogEvents w' = emailLogEvents w
      \<and> new_calls w w' = [AuthenticateApiKey, FindProject (k_projectId projectApiKey),
            FindIdentity (p_id project) (fromDomain (b_from (rp_body params)))]"
  proof cases
    case 1
    from handle_unverified[OF auth proj single ident 1] run show ?thesis
      by (auto simp: new_calls_def)
  next
    case 2
    from handle_unconfigured[OF auth proj single ident 2] run show ?thesis
      by (auto simp: new_calls_def)
  qed
  then show ?thesis by simp
next
  case False
  then show ?thesis by (cases "i_configurationSetName identity") auto
qed

theorem handle_dispatch_only_when_verified_and_configured_witness:
  "authenticateApiKey example_env (rp_context example_params) = Inr example_key
   \<and> find (\<lambda>i. i_projectId i = p_id example_project
                 \<and> Some (i_domain i) = fromDomain (b_from (rp_body example_params)))
        (projectIdentities pending_world) = Some pending_identity
   \<and> i_status pending_identity \<noteq> ''success''
   \<and> fst (handle example_env example_params pending_world)
       = Inl (HttpError ''bad_request'' ''Identity mly.fyi is not verified.'')
   \<and> emailLogs (snd (handle example_env example_params pending_world)) = []
   \<and> emailLogEvents (snd (handle example_env example_params pending_world)) = []
   \<and> \<not> list_ex isSendEmail
         (new_calls pending_world (snd (handle example_env example_params pending_world)))"
  using handle_dispatch_only_when_verified_and_configured
    [of example_env example_params example_key pending_world example_project pending_identity
        "fst (handle example_env example_params pending_world)"
        "snd (handle example_env example_params pending_world)"]
  by (simp add: example_defs example_domain handle_defs new_calls_def)

section \<open>The body-content rule\<close>

lemma both_Inr: "both a b = Inr p \<longleftrightarrow> (\<exists>x y. a = Inr x \<and> b = Inr y \<and> p = (x, y))"
  by (cases a; cases b) auto

lemma at_path_Inr: "at_path k r = Inr v \<longleftrightarrow> r = Inr v"
  by (cases r) (auto simp: at_path_def)

lemma content_optional:
  "string_optional lib content v = Inr t \<longleftrightarrow>
     (v = None \<and> t = None) \<or> (\<exists>s. v = Some (JStr s) \<and> t = Some (trim s))"
proof (cases v)
  case None
  then show ?thesis by (auto simp: string_optional_def)
next
  case (Some j)
  then show ?thesis
    by (cases j) (auto simp: string_optional_def content_def convert_def Let_def)
qed

lemma schema_validate_content:
  assumes "schema_validate lib body = Inr v"
  shows "string_optional lib content (supplied body ''text'') = Inr (b_text v)
       \<and> string_optional lib content (supplied body ''html'') = Inr (b_html v)"
proof (cases body)
  case (JObj kvs)
  with assms show ?thesis
    by (auto simp: schema_validate_def Let_def both_Inr at_path_Inr split: sum.splits)
qed (use assms in \<open>auto simp: schema_validate_def\<close>)

lemma truthy_content:
  assumes "string_optional lib content v = Inr t"
  shows "\<not> falsy t \<longleftrightarrow> nonblank v"
  using assms unfolding content_optional by auto

lemma validated_content:
  assumes "schema_validate lib body = Inr v"
  shows "falsy (b_text v) \<and> falsy (b_html v)
         \<longleftrightarrow> \<not> (nonblank (supplied body ''text'') \<or> nonblank (supplied body ''html''))"
  using schema_validate_content[OF assms] truthy_content by blast

lemma validate_accepts_iff:
  "(\<exists>p. validate lib params = Inr p) \<longleftrightarrow>
     (\<exists>v. schema_validate lib (rp_body params) = Inr v)
     \<and> (nonblank (supplied (rp_body params) ''text'')
        \<or> nonblank (supplied (rp_body params) ''html''))"
proof (cases "schema_validate lib (rp_body params)")
  case (Inl details)
  then show ?thesis by (simp add: validate_def)
next
  case (Inr v)
  from validated_content[OF Inr] Inr show ?thesis
    by (simp add: validate_def)
qed

lemma validate_without_content:
  assumes "schema_validate lib (rp_body params) = Inr v"
    and "\<not> (nonblank (supplied (rp_body params) ''text'')
            \<or> nonblank (supplied (rp_body params) ''html''))"
  shows "validate lib params
         = Inl (HttpError ''bad_request'' ''Either text or html is required.'')"
  using validated_content[OF assms(1)] assms by (simp add: validate_def)

text \<open>
  C7, as amended. \<open>validate\<close> accepts a request exactly when the schema accepts the body
  and at least one of \<open>text\<close> and \<open>html\<close> is supplied as a string that is not empty after
  trimming: a supplied empty string counts as absent. A body that passes the schema
  without such content is rejected with the \<open>bad_request\<close> \<open>Either text or html is
  required.\<close>; a body with neither key is rejected; and a request that \<open>validate\<close>
  rejects leaves the state of the route as it was, so no log or event row is written.
\<close>

theorem validate_requires_nonblank_text_or_html:
  "((\<exists>p. validate lib params = Inr p) \<longleftrightarrow>
      (\<exists>v. schema_validate lib (rp_body params) = Inr v)
      \<and> (nonblank (supplied (rp_body params) ''text'')
         \<or> nonblank (supplied (rp_body params) ''html'')))
   \<and> ((\<exists>v. schema_validate lib (rp_body params) = Inr v)
        \<and> \<not> nonblank (supplied (rp_body params) ''text'')
        \<and> \<not> nonblank (supplied (rp_body params) ''html'')
       \<longrightarrow> validate lib params
             = Inl (HttpError ''bad_request'' ''Either text or html is required.''))
   \<and> (supplied (rp_body params) ''text'' = None \<and> supplied (rp_body params) ''html'' = None
       \<longrightarrow> (\<exists>e. validate lib params = Inl e))
   \<and> (\<forall>e. validate lib params = Inl e \<longrightarrow> POST lib env params w = (Inl e, w))"
proof (intro conjI)
  show "(\<exists>p. validate lib params = Inr p) \<longleftrightarrow>
      (\<exists>v. schema_validate lib (rp_body params) = Inr v)
      \<and> (nonblank (supplied (rp_body params) ''text'')
         \<or> nonblank (supplied (rp_body params) ''html''))"
    by (rule validate_accepts_iff)
  show "(\<exists>v. schema_validate lib (rp_body params) = Inr v)
        \<and> \<not> nonblank (supplied (rp_body params) ''text'')
        \<and> \<not> nonblank (supplied (rp_body params) ''html'')
       \<longrightarrow> validate lib params
             = Inl (HttpError ''bad_request'' ''Either text or html is required.'')"
    using validate_without_content by blast
  show "supplied (rp_body params) ''text'' = None \<and> supplied (rp_body params) ''html'' = None
       \<longrightarrow> (\<exists>e. validate lib params = Inl e)"
  proof
    assume "supplied (rp_body params) ''text'' = None
            \<and> supplied (rp_body params) ''html'' = None"
    then have "\<not> (\<exists>p. validate lib params = Inr p)"
      unfolding validate_accepts_iff by simp
    then show "\<exists>e. validate lib params = Inl e"
      by (cases "validate lib params") auto
  qed
  show "\<forall>e. validate lib params = Inl e \<longrightarrow> POST lib env params w = (Inl e, w)"
    by (simp add: POST_def)
qed

lemma validate_example_request:
  "validate example_lib (request example_request) = Inr example_params"
  by code_simp

lemma validate_no_content_body:
  "validate example_lib (request no_content_body)
   = Inl (HttpError ''bad_request'' ''Either text or html is required.'')"
  by code_simp

lemma validate_empty_text_body:
  "validate example_lib (request empty_text_body)
   = Inl (HttpError ''bad_request'' ''Either text or html is required.'')"
  by code_simp

lemma validate_nbsp_text_body:
  "validate example_lib (request nbsp_text_body)
   = Inl (HttpError ''bad_request'' ''Either text or html is required.'')"
  by code_simp

lemma example_request_has_text:
  "nonblank (supplied (rp_body (request example_request)) ''text'')"
  by code_simp

lemma nbsp_text_is_blank:
  "\<not> nonblank (supplied (rp_body (request nbsp_text_body)) ''text'')"
  by code_simp

theorem validate_requires_nonblank_text_or_html_witness:
  "validate example_lib (request example_request) = Inr example_params
   \<and> nonblank (supplied (rp_body (request example_request)) ''text'')
   \<and> supplied (rp_body (request no_content_body)) ''text'' = None
   \<and> supplied (rp_body (request no_content_body)) ''html'' = None
   \<and> validate example_lib (request no_content_body)
       = Inl (HttpError ''bad_request'' ''Either text or html is required.'')
   \<and> POST example_lib example_env (request no_content_body) example_world
       = (Inl (HttpError ''bad_request'' ''Either text or html is required.''), example_world)
   \<and> \<not> nonblank (supplied (rp_body (request nbsp_text_body)) ''text'')
   \<and> validate example_lib (request nbsp_text_body)
       = Inl (HttpError ''bad_request'' ''Either text or html is required.'')"
  using validate_requires_nonblank_text_or_html
          [of example_lib "request no_content_body" example_env example_world]
        validate_example_request validate_no_content_body validate_nbsp_text_body
        example_request_has_text nbsp_text_is_blank
  by (simp add: request_def no_content_body_def)

text \<open>
  C7 as stated fails: a body whose \<open>text\<close> is supplied as the empty string, with no
  \<open>html\<close>, passes the schema and is rejected by the body rule.
\<close>

lemma schema_validate_empty_text_body:
  "schema_validate example_lib empty_text_body
   = Inr (example_body\<lparr>b_text := Some [], b_html := None\<rparr>)"
  by code_simp

theorem validate_empty_text_counterexample:
  "supplied (rp_body (request empty_text_body)) ''text'' = Some (JStr [])
   \<and> schema_validate example_lib empty_text_body
       = Inr (example_body\<lparr>b_text := Some [], b_html := None\<rparr>)
   \<and> validate example_lib (request empty_text_body)
       = Inl (HttpError ''bad_request'' ''Either text or html is required.'')"
  using validate_empty_text_body schema_validate_empty_text_body
  by (simp add: request_def empty_text_body_def)

section \<open>Recipients at the route\<close>

lemma both_Inl_left: "a = Inl e \<Longrightarrow> \<exists>g. both a b = Inl g \<and> set e \<subseteq> set g"
  by (cases b) auto

lemma both_Inl_right: "b = Inl f \<Longrightarrow> \<exists>g. both a b = Inl g \<and> set f \<subseteq> set g"
  by (cases a) auto

lemma address_of_array:
  "isJArr v \<Longrightarrow> string_required lib address v = Inl [''string.base'']"
  "isJArr v \<Longrightarrow> string_optional lib address v = Inl [''string.base'']"
  by (induction v rule: isJArr.induct) (simp_all add: string_required_def string_optional_def)

text \<open>The schema on a body whose \<open>to\<close> is an array.\<close>

lemma schema_rejects_array_to:
  assumes "isJArr (supplied body ''to'')"
  shows "\<exists>details. schema_validate lib body = Inl details
                   \<and> (''to'', ''string.base'') \<in> set details"
proof (cases body)
  case (JObj kvs)
  let ?rest = "both (at_path ''replyTo'' (string_optional lib address (map_of kvs ''replyTo'')))
               (both (at_path ''subject'' (string_required lib plain (map_of kvs ''subject'')))
               (both (at_path ''text'' (string_optional lib content (map_of kvs ''text'')))
               (both (at_path ''html'' (string_optional lib content (map_of kvs ''html'')))
                     (headers_schema lib (map_of kvs ''headers'')))))"
  from assms JObj have "at_path ''to'' (string_required lib address (map_of kvs ''to''))
                        = Inl [(''to'', ''string.base'')]"
    by (simp add: address_of_array at_path_def)
  from both_Inl_left[OF this, of ?rest] obtain g
    where g: "both (at_path ''to'' (string_required lib address (map_of kvs ''to''))) ?rest = Inl g"
      and to: "(''to'', ''string.base'') \<in> set g"
    by auto
  from both_Inl_right[OF g, of "at_path ''from'' (string_required lib plain (map_of kvs ''from''))"]
  obtain h
    where "both (at_path ''from'' (string_required lib plain (map_of kvs ''from'')))
             (both (at_path ''to'' (string_required lib address (map_of kvs ''to''))) ?rest) = Inl h"
      and "set g \<subseteq> set h"
    by auto
  with to JObj show ?thesis
    by (auto simp: schema_validate_def Let_def)
qed (use assms in auto)

text \<open>The schema on a body whose \<open>replyTo\<close> is an array.\<close>

lemma schema_rejects_array_replyTo:
  assumes "isJArr (supplied body ''replyTo'')"
  shows "\<exists>details. schema_validate lib body = Inl details
                   \<and> (''replyTo'', ''string.base'') \<in> set details"
proof (cases body)
  case (JObj kvs)
  let ?rest = "both (at_path ''subject'' (string_required lib plain (map_of kvs ''subject'')))
               (both (at_path ''text'' (string_optional lib content (map_of kvs ''text'')))
               (both (at_path ''html'' (string_optional lib content (map_of kvs ''html'')))
                     (headers_schema lib (map_of kvs ''headers''))))"
  let ?replyTo = "at_path ''replyTo'' (string_optional lib address (map_of kvs ''replyTo''))"
  let ?to = "at_path ''to'' (string_required lib address (map_of kvs ''to''))"
  let ?from = "at_path ''from'' (string_required lib plain (map_of kvs ''from''))"
  from assms JObj have "?replyTo = Inl [(''replyTo'', ''string.base'')]"
    by (simp add: address_of_array at_path_def)
  from both_Inl_left[OF this, of ?rest] obtain g
    where g: "both ?replyTo ?rest = Inl g" and r: "(''replyTo'', ''string.base'') \<in> set g"
    by auto
  from both_Inl_right[OF g, of ?to] obtain h
    where h: "both ?to (both ?replyTo ?rest) = Inl h" and gh: "set g \<subseteq> set h"
    by auto
  from both_Inl_right[OF h, of ?from] obtain k
    where "both ?from (both ?to (both ?replyTo ?rest)) = Inl k" and "set h \<subseteq> set k"
    by auto
  with r gh JObj show ?thesis
    by (auto simp: schema_validate_def Let_def)
qed (use assms in auto)

text \<open>What \<open>validate\<close> returns has a single \<open>to\<close> and, if any, a single \<open>replyTo\<close>.\<close>

lemma validated_recipients_single:
  assumes "validate lib params = Inr p"
  shows "\<not> isArray (b_to (rp_body p)) \<and> \<not> isArray_opt (b_replyTo (rp_body p))"
proof (cases "rp_body params")
  case (JObj kvs)
  with assms show ?thesis
    by (cases "b_replyTo (rp_body p)")
       (auto simp: validate_def schema_validate_def Let_def
             split: sum.splits if_splits prod.splits)
qed (use assms in \<open>auto simp: validate_def schema_validate_def\<close>)

text \<open>
  C6, as amended. A request in which \<open>to\<close> or \<open>replyTo\<close> is an array is rejected by
  \<open>validate\<close> with the schema's error, whose details name the key with \<open>string.base\<close>;
  the route returns that error with the state as it was, so before any call of the
  handler and before any identity lookup. The error is never \<open>Multiple recipients are
  not supported.\<close>: the parameters that \<open>validate\<close> hands to the handler have single
  addresses, so the handler's guard is not reached through the route.
\<close>

theorem route_rejects_array_recipients:
  "(isJArr (supplied (rp_body params) ''to'') \<or> isJArr (supplied (rp_body params) ''replyTo'')
    \<longrightarrow> (\<exists>details.
           validate lib params = Inl (ValidationError details)
           \<and> POST lib env params w = (Inl (ValidationError details), w)
           \<and> \<not> list_ex isFindIdentity (new_calls w (snd (POST lib env params w)))
           \<and> (isJArr (supplied (rp_body params) ''to'')
                \<longrightarrow> (''to'', ''string.base'') \<in> set details)
           \<and> (isJArr (supplied (rp_body params) ''replyTo'')
                \<longrightarrow> (''replyTo'', ''string.base'') \<in> set details)))
   \<and> (\<forall>p. validate lib params = Inr p
         \<longrightarrow> \<not> isArray (b_to (rp_body p)) \<and> \<not> isArray_opt (b_replyTo (rp_body p)))"
proof (intro conjI impI allI)
  fix p assume "validate lib params = Inr p"
  then show "\<not> isArray (b_to (rp_body p))" "\<not> isArray_opt (b_replyTo (rp_body p))"
    using validated_recipients_single by blast+
next
  assume arr: "isJArr (supplied (rp_body params) ''to'')
               \<or> isJArr (supplied (rp_body params) ''replyTo'')"
  then obtain details where d: "schema_validate lib (rp_body params) = Inl details"
    using schema_rejects_array_to schema_rejects_array_replyTo by blast
  have v: "validate lib params = Inl (ValidationError details)"
    using d by (simp add: validate_def)
  have "isJArr (supplied (rp_body params) ''to'') \<longrightarrow> (''to'', ''string.base'') \<in> set details"
    using schema_rejects_array_to[of "rp_body params" lib] d by auto
  moreover have "isJArr (supplied (rp_body params) ''replyTo'')
                 \<longrightarrow> (''replyTo'', ''string.base'') \<in> set details"
    using schema_rejects_array_replyTo[of "rp_body params" lib] d by auto
  ultimately show "\<exists>details.
           validate lib params = Inl (ValidationError details)
           \<and> POST lib env params w = (Inl (ValidationError details), w)
           \<and> \<not> list_ex isFindIdentity (new_calls w (snd (POST lib env params w)))
           \<and> (isJArr (supplied (rp_body params) ''to'')
                \<longrightarrow> (''to'', ''string.base'') \<in> set details)
           \<and> (isJArr (supplied (rp_body params) ''replyTo'')
                \<longrightarrow> (''replyTo'', ''string.base'') \<in> set details)"
    using v by (auto simp: POST_def new_calls_def)
qed

lemma POST_array_replyTo_body:
  "POST example_lib example_env (request array_replyTo_body) example_world
   = (Inl (ValidationError [(''replyTo'', ''string.base'')]), example_world)"
  by code_simp

lemma POST_array_to_body:
  "POST example_lib example_env (request array_to_body) example_world
   = (Inl (ValidationError [(''to'', ''string.base'')]), example_world)"
  by code_simp

theorem route_rejects_array_recipients_witness:
  "isJArr (supplied (rp_body (request array_replyTo_body)) ''replyTo'')
   \<and> validate example_lib (request array_replyTo_body)
       = Inl (ValidationError [(''replyTo'', ''string.base'')])
   \<and> POST example_lib example_env (request array_replyTo_body) example_world
       = (Inl (ValidationError [(''replyTo'', ''string.base'')]), example_world)
   \<and> new_calls example_world
         (snd (POST example_lib example_env (request array_replyTo_body) example_world)) = []
   \<and> validate example_lib (request example_request) = Inr example_params
   \<and> \<not> isArray (b_to (rp_body example_params))
   \<and> \<not> isArray_opt (b_replyTo (rp_body example_params))"
  using route_rejects_array_recipients
          [of "request array_replyTo_body" example_lib example_env example_world]
        route_rejects_array_recipients
          [of "request example_request" example_lib example_env example_world]
        POST_array_replyTo_body validate_example_request
  by (auto simp: request_def array_replyTo_body_def POST_def example_params_def
        example_body_def new_calls_def split: sum.splits)

text \<open>
  C6 as stated fails: the request with two recipients is rejected by the schema with
  \<open>string.base\<close> for \<open>to\<close>, which is no \<open>bad_request\<close> and does not carry the message
  \<open>Multiple recipients are not supported.\<close>; the state is as it was.
\<close>

theorem route_array_to_counterexample:
  "isJArr (supplied (rp_body (request array_to_body)) ''to'')
   \<and> POST example_lib example_env (request array_to_body) example_world
       = (Inl (ValidationError [(''to'', ''string.base'')]), example_world)
   \<and> \<not> fails_with ''bad_request''
         (fst (POST example_lib example_env (request array_to_body) example_world))"
  using POST_array_to_body
  by (simp add: request_def array_to_body_def)

section \<open>Properties of the session middleware\<close>

text \<open>No cookie (or an empty one): \<open>next()\<close> with the context as it is, and no other call.\<close>

lemma onRequest_without_cookie:
  assumes "truthy (map_of (cookies context) (TOKEN_COOKIE_NAME env)) = None"
  shows "onRequest env db context = (Inr context, [Next])"
  using assms by (simp add: onRequest_def)

text \<open>A subject id that matches no user: the cookie is deleted, then \<open>next()\<close>.\<close>

lemma onRequest_unknown_user:
  assumes "truthy (map_of (cookies context) (TOKEN_COOKIE_NAME env)) = Some userAuthToken"
    and "decodeToken env userAuthToken = Inr payload"
    and "fault db = None"
    and "find (\<lambda>u. u_id u = t_id payload) (users db) = None"
  shows "onRequest env db context =
     (Inr (cookies_delete (TOKEN_COOKIE_NAME env) context),
      [DecodeToken userAuthToken, FindUser (t_id payload), Next])"
  using assms by (simp add: onRequest_def findFirst_user_def)

text \<open>A datastore error outside development: the cookie is deleted, then \<open>next()\<close>.\<close>

lemma onRequest_datastore_error:
  assumes "truthy (map_of (cookies context) (TOKEN_COOKIE_NAME env)) = Some userAuthToken"
    and "decodeToken env userAuthToken = Inr payload"
    and "fault db = Some e"
  shows "onRequest env db context =
     (if DEV env
      then (Inr context, [DecodeToken userAuthToken, FindUser (t_id payload), LogError e, Next])
      else (Inr (cookies_delete (TOKEN_COOKIE_NAME env) context),
            [DecodeToken userAuthToken, FindUser (t_id payload), Next]))"
  using assms by (simp add: onRequest_def findFirst_user_def)

text \<open>A token that does not decode: the error leaves the middleware, \<open>next()\<close> is not called.\<close>

lemma onRequest_decode_failure:
  assumes "truthy (map_of (cookies context) (TOKEN_COOKIE_NAME env)) = Some userAuthToken"
    and "decodeToken env userAuthToken = Inl e"
  shows "onRequest env db context = (Inl e, [DecodeToken userAuthToken])"
  using assms by (simp add: onRequest_def)

text \<open>
  C8 fails for a token that does not decode. With the cookie \<open>tampered\<close>, which
  \<open>decodeToken\<close> rejects with \<open>InvalidToken\<close>, the middleware throws that error: the only
  call made is the decoding, the cookie is not cleared and \<open>next()\<close> is not reached.
\<close>

theorem onRequest_tampered_token_throws:
  "onRequest example_mw example_db (with_cookie ''tampered'')
   = (Inl (Thrown ''InvalidToken''), [DecodeToken ''tampered''])"
  by (simp add: onRequest_def example_mw_def with_cookie_def)

text \<open>
  C10. For a request whose session token decodes to the id of a user row, whatever the
  row's \<open>isEnabled\<close> and \<open>verifiedAt\<close>, the middleware calls \<open>next()\<close> with \<open>currentUser\<close>
  set to the row's \<open>id\<close>, \<open>email\<close> and \<open>name\<close> and \<open>currentUserId\<close> set to its \<open>id\<close>; the
  cookies are left as they were.
\<close>

theorem onRequest_resolves_any_matching_user:
  assumes "truthy (map_of (cookies context) (TOKEN_COOKIE_NAME env)) = Some userAuthToken"
    and "decodeToken env userAuthToken = Inr payload"
    and "fault db = None"
    and "find (\<lambda>u. u_id u = t_id payload) (users db) = Some u"
  shows "onRequest env db context =
     (Inr (context\<lparr>currentUser := Some \<lparr>cu_id = u_id u, cu_email = u_email u, cu_name = u_name u\<rparr>,
                   currentUserId := Some (u_id u)\<rparr>),
      [DecodeToken userAuthToken, FindUser (t_id payload),
       ConsoleLog (replicate 20 (CHR ''-'')),
       ConsoleLogUser \<lparr>cu_id = u_id u, cu_email = u_email u, cu_name = u_name u\<rparr>,
       ConsoleLog (replicate 20 (CHR ''-'')), Next])"
  using assms by (simp add: onRequest_def findFirst_user_def columns_def)

theorem onRequest_resolves_any_matching_user_witness:
  "truthy (map_of (cookies (with_cookie ''good'')) (TOKEN_COOKIE_NAME example_mw)) = Some ''good''
   \<and> decodeToken example_mw ''good'' = Inr \<lparr>t_id = ''u1''\<rparr>
   \<and> find (\<lambda>u. u_id u = ''u1'') (users example_db) = Some example_user
   \<and> \<not> u_isEnabled example_user \<and> u_verifiedAt example_user = None
   \<and> fst (onRequest example_mw example_db (with_cookie ''good'')) =
       Inr \<lparr>cookies = [(''token'', ''good'')],
            currentUser = Some \<lparr>cu_id = ''u1'', cu_email = ''ada@mly.fyi'', cu_name = ''Ada''\<rparr>,
            currentUserId = Some ''u1''\<rparr>"
  using onRequest_resolves_any_matching_user
          [of "with_cookie ''good''" example_mw "''good''" "\<lparr>t_id = ''u1''\<rparr>" example_db
              example_user]
  by (simp add: example_mw_def example_db_def example_user_def with_cookie_def)

end
